theory Spec2Isabelle
  imports Main "HOL-Library.Signed_Division" "HOL-Library.Log_Nat"
begin

section \<open>The counter store of src/stores/count.store.ts\<close>

text \<open>
  The repository is one zustand store: a counter, a parity query computed from it, two
  actions and a persisted projection of the state.
  \<^verbatim>\<open>
  export const useCountStore = create<CountStore>()(
    persist(
      (set, get) => ({
        count: 0,
        isEven: () => get().count % 2 === 0,
        actions: {
          increment: () => set((state) => ({ count: state.count + 1 })),
          decrement: () => set((state) => ({ count: state.count - 1 })),
        },
      }),
      { name: 'countStore', partialize: (state) => ({ count: state.count }) },
    ),
  )
  \<close>
  The store is mutable: every operation below takes the store and returns its result together
  with the store it leaves behind.
\<close>

subsection \<open>Numbers\<close>

text \<open>
  A TypeScript \<open>number\<close> is an IEEE 754 double. The counter only ever holds whole
  numbers (it starts at \<open>0\<close> and moves by \<open>1\<close>), so a number is modelled by the integer
  it denotes, and the arithmetic of the source is the exact integer operation followed by
  the rounding a double performs: 53 significant bits, to nearest, ties to the even
  significand. Up to \<open>2 ^ 53\<close> in magnitude nothing is rounded. Adding or subtracting
  \<open>1\<close> never leaves the finite doubles (a double that large absorbs the \<open>1\<close>), so no
  infinity or NaN is modelled.
\<close>

type_synonym number = int

definition round_half_even :: "int \<Rightarrow> int \<Rightarrow> int" where
  \<comment> \<open>\<open>z / q\<close> rounded to the nearest integer, a tie going to the even one (\<open>0 < q\<close>)\<close>
  "round_half_even z q =
     (let d = z div q; r = z mod q
      in if 2 * r < q then d
         else if q < 2 * r then d + 1
         else if even d then d else d + 1)"

definition to_double :: "int \<Rightarrow> number" where
  \<comment> \<open>the double nearest to the integer \<open>z\<close>: \<open>q\<close> is the spacing of doubles around \<open>z\<close>\<close>
  "to_double z =
     (if \<bar>z\<bar> < 2 ^ 53 then z
      else let q = 2 ^ nat (bitlen \<bar>z\<bar> - 53) in round_half_even z q * q)"

definition js_add :: "number \<Rightarrow> number \<Rightarrow> number" where
  \<comment> \<open>\<open>a + b\<close>\<close>
  "js_add a b = to_double (a + b)"

definition js_sub :: "number \<Rightarrow> number \<Rightarrow> number" where
  \<comment> \<open>\<open>a - b\<close>\<close>
  "js_sub a b = to_double (a - b)"

definition js_rem :: "number \<Rightarrow> number \<Rightarrow> number" where
  \<comment> \<open>\<open>a % b\<close>: the remainder takes the sign of the dividend and is exact; the source only
      divides by the literal \<open>2\<close>\<close>
  "js_rem a b = a smod b"

subsection \<open>The state object\<close>

text \<open>
  The creator (lines 17 to 24) runs once per store and allocates four objects besides the
  state: the three arrow functions and the \<open>actions\<close> object. A reference is named by the
  place that allocated it; two references are the same object exactly when they are equal.
\<close>

datatype ref = IsEvenFn | IncrementFn | DecrementFn | ActionsObj

record CountActions =
  increment_ref :: ref
  decrement_ref :: ref

record CountStore =
  count :: number
  isEven_ref :: ref
  actions_ref :: ref

text \<open>
  An object literal that gives only some of the fields of \<open>CountStore\<close>, such as
  \<open>{ count: state.count + 1 }\<close>: a field is either given or left out.
\<close>

record PartialCountStore =
  count_given :: "number option"
  isEven_given :: "ref option"
  actions_given :: "ref option"

definition keys :: "PartialCountStore \<Rightarrow> string list" where
  \<comment> \<open>\<open>Object.keys\<close>: the names of the fields the object has\<close>
  "keys p =
     (case count_given p of None \<Rightarrow> [] | Some _ \<Rightarrow> [''count'']) @
     (case isEven_given p of None \<Rightarrow> [] | Some _ \<Rightarrow> [''isEven'']) @
     (case actions_given p of None \<Rightarrow> [] | Some _ \<Rightarrow> [''actions''])"

definition assign :: "CountStore \<Rightarrow> PartialCountStore \<Rightarrow> CountStore" where
  \<comment> \<open>\<open>Object.assign({}, state, partial)\<close>: a given field replaces the state's, the others
      are copied\<close>
  "assign s p =
     \<lparr>count = (case count_given p of None \<Rightarrow> count s | Some c \<Rightarrow> c),
      isEven_ref = (case isEven_given p of None \<Rightarrow> isEven_ref s | Some r \<Rightarrow> r),
      actions_ref = (case actions_given p of None \<Rightarrow> actions_ref s | Some r \<Rightarrow> r)\<rparr>"

definition actions_object :: CountActions where
  \<comment> \<open>the object allocated at line 20, the one \<open>ActionsObj\<close> refers to\<close>
  "actions_object = \<lparr>increment_ref = IncrementFn, decrement_ref = DecrementFn\<rparr>"

definition initial_state :: CountStore where
  \<comment> \<open>the object the creator returns\<close>
  "initial_state = \<lparr>count = 0, isEven_ref = IsEvenFn, actions_ref = ActionsObj\<rparr>"

subsection \<open>The persisted projection\<close>

definition name :: string where
  "name = ''countStore''"

definition partialize :: "CountStore \<Rightarrow> PartialCountStore" where
  \<comment> \<open>\<open>(state) => ({ count: state.count })\<close>\<close>
  "partialize s = \<lparr>count_given = Some (count s), isEven_given = None, actions_given = None\<rparr>"

subsection \<open>The store and the primitives the library hands to the creator\<close>

text \<open>
  \<open>create\<close> and \<open>persist\<close> are imported from the zustand package, a dependency of the
  repository whose code is not among its files. The store they build and the \<open>set\<close> and
  \<open>get\<close> they pass to the creator are modelled from what the specification says of them.
\<close>

text \<open>
  Modelled from the spec: the durable medium that \<open>persist\<close> reads and writes (the
  middleware is not a file of the repository). "A single named record" is stored under a key
  (6); a record read back is either "present and well-formed", and then deserializes to the
  snapshot that was written, or it is "malformed" text that does not parse (4.1, step 2,
  and the failure semantics). The specification fixes no text encoding, and none is modelled.
\<close>

datatype item = Snapshot PartialCountStore | Malformed string

text \<open>
  A store is the current state object, the durable medium (the host's key-value storage)
  and, for stating how often the store writes, the log of the writes it has made, oldest
  first.
\<close>

record store =
  state :: CountStore
  storage :: "string \<rightharpoonup> item"
  writes :: "(string \<times> PartialCountStore) list"

text \<open>
  Modelled from the spec: \<open>get\<close>, which \<open>create\<close> passes to the creator (the library is
  not a file of the repository). The derived value is "recomputed on each read" from the
  current \<open>count\<close> (3): \<open>get()\<close> returns the state the store holds now and changes nothing.
\<close>

definition getState :: "store \<Rightarrow> CountStore \<times> store" where
  "getState st = (state st, st)"

text \<open>
  Modelled from the spec: \<open>set\<close>, as \<open>create\<close> implements it (the library is not a file
  of the repository). An action "sets \<open>count\<close>" (4.1) and the state keeps its other parts:
  \<open>set(f)\<close> replaces the state by the object \<open>f(state)\<close> merged over the current state.
\<close>

definition setState :: "(CountStore \<Rightarrow> PartialCountStore) \<Rightarrow> store \<Rightarrow> unit \<times> store" where
  "setState f st = ((), st\<lparr>state := assign (state st) (f (state st))\<rparr>)"

text \<open>
  Modelled from the spec: the write of the \<open>persist\<close> middleware (not a file of the
  repository). Step 3 of the persistence protocol (4.1): "serialize \<open>{ count }\<close> [...] and
  write it back under the same name, overwriting the previous snapshot". The snapshot is the
  projection \<open>partialize\<close> of the current state, the name is \<open>name\<close>; both are the options of
  lines 26 and 27.
\<close>

definition setItem :: "store \<Rightarrow> unit \<times> store" where
  "setItem st =
     (let snapshot = partialize (fst (getState st))
      in ((), st\<lparr>storage := (storage st)(name \<mapsto> Snapshot snapshot),
                 writes := writes st @ [(name, snapshot)]\<rparr>))"

text \<open>
  Modelled from the spec: the \<open>set\<close> that \<open>persist\<close> passes on to the creator in place of
  the store's own (the middleware is not a file of the repository). "After every successful
  mutation" the snapshot is written (4.1, step 3), "at-most-once-per-mutation" (step 4): the
  mutation, then one write.
\<close>

definition persist_set :: "(CountStore \<Rightarrow> PartialCountStore) \<Rightarrow> store \<Rightarrow> unit \<times> store" where
  "persist_set f st = setItem (snd (setState f st))"

text \<open>
  Modelled from the spec: the construction of the store by \<open>create(persist(...))\<close> over a
  durable medium (neither function is a file of the repository). Steps 1 and 2 of the
  persistence protocol (4.1): "attempt to read a named record [...] from the durable medium.
  If present and well-formed, deserialize and set \<open>count\<close> to the stored value; otherwise use
  default \<open>0\<close>". The default is the object the creator returns, and a snapshot read back is
  merged over it.
\<close>

definition useCountStore :: "(string \<rightharpoonup> item) \<Rightarrow> store" where
  "useCountStore medium =
     \<lparr>state = (case medium name of
                 Some (Snapshot snapshot) \<Rightarrow> assign initial_state snapshot
               | _ \<Rightarrow> initial_state),
      storage = medium,
      writes = []\<rparr>"

subsection \<open>The functions of the state object\<close>

definition isEven :: "store \<Rightarrow> bool \<times> store" where
  \<comment> \<open>\<open>() => get().count % 2 === 0\<close>\<close>
  "isEven st = (case getState st of (s, st') \<Rightarrow> (js_rem (count s) 2 = 0, st'))"

text \<open>
  The two actions hand \<open>set\<close> an updater, a function from the current state to the object
  that is merged over it. The updaters have no name in the source; they are named here
  after their actions.
\<close>

definition increment_updater :: "CountStore \<Rightarrow> PartialCountStore" where
  \<comment> \<open>\<open>(state) => ({ count: state.count + 1 })\<close>\<close>
  "increment_updater s =
     \<lparr>count_given = Some (js_add (count s) 1), isEven_given = None, actions_given = None\<rparr>"

definition decrement_updater :: "CountStore \<Rightarrow> PartialCountStore" where
  \<comment> \<open>\<open>(state) => ({ count: state.count - 1 })\<close>\<close>
  "decrement_updater s =
     \<lparr>count_given = Some (js_sub (count s) 1), isEven_given = None, actions_given = None\<rparr>"

definition increment :: "store \<Rightarrow> unit \<times> store" where
  \<comment> \<open>\<open>() => set((state) => ({ count: state.count + 1 }))\<close>\<close>
  "increment = persist_set increment_updater"

definition decrement :: "store \<Rightarrow> unit \<times> store" where
  \<comment> \<open>\<open>() => set((state) => ({ count: state.count - 1 }))\<close>\<close>
  "decrement = persist_set decrement_updater"

subsection \<open>The custom hooks\<close>

definition useCount :: "store \<Rightarrow> number" where
  \<comment> \<open>\<open>useCountStore((state) => state.count)\<close>\<close>
  "useCount st = count (fst (getState st))"

definition useIsEven :: "store \<Rightarrow> bool" where
  \<comment> \<open>\<open>useCountStore((state) => state.isEven())\<close>\<close>
  "useIsEven st = fst (isEven st)"

definition useCountActions :: "store \<Rightarrow> ref" where
  \<comment> \<open>\<open>useCountStore((state) => state.actions)\<close>\<close>
  "useCountActions st = actions_ref (fst (getState st))"

subsection \<open>Sequences of calls\<close>

text \<open>
  The buttons of \<open>App.tsx\<close> call the two actions in some order. A sequence of such calls is a
  list; \<open>run\<close> makes the calls one after the other, \<open>net\<close> is the sum of the steps of
  \<open>+1\<close> and \<open>-1\<close> the calls stand for, and \<open>running_sums c\<close> lists that sum after each call,
  counted from \<open>c\<close>.
\<close>

datatype action = Increment | Decrement

fun call :: "action \<Rightarrow> store \<Rightarrow> store" where
  "call Increment st = snd (increment st)"
| "call Decrement st = snd (decrement st)"

fun run :: "action list \<Rightarrow> store \<Rightarrow> store" where
  "run [] st = st"
| "run (a # as) st = run as (call a st)"

fun delta :: "action \<Rightarrow> int" where
  "delta Increment = 1"
| "delta Decrement = - 1"

definition net :: "action list \<Rightarrow> int" where
  "net as = sum_list (map delta as)"

fun running_sums :: "int \<Rightarrow> action list \<Rightarrow> int list" where
  "running_sums c [] = []"
| "running_sums c (a # as) = (c + delta a) # running_sums (c + delta a) as"

section \<open>Rounding\<close>

lemma to_double_exact: "\<bar>z\<bar> \<le> 2 ^ 53 \<Longrightarrow> to_double z = z"
proof -
  assume a: "\<bar>z\<bar> \<le> 2 ^ 53"
  have p: "to_double (2 ^ 53) = 2 ^ 53" by code_simp
  have n: "to_double (- (2 ^ 53)) = - (2 ^ 53)" by code_simp
  from a consider "\<bar>z\<bar> < 2 ^ 53" | "z = 2 ^ 53" | "z = - (2 ^ 53)" by linarith
  then show ?thesis
  proof cases
    case 1 then show ?thesis by (simp add: to_double_def)
  next
    case 2 with p show ?thesis by simp
  next
    case 3 with n show ?thesis by simp
  qed
qed

text \<open>
  One past \<open>2 ^ 53\<close> lies half-way between two doubles, and the tie goes back to
  \<open>2 ^ 53\<close>, whose significand is even; the same happens below \<open>- (2 ^ 53)\<close>.
\<close>

lemma to_double_tie: "to_double (2 ^ 53 + 1) = 2 ^ 53"
  by code_simp

lemma to_double_tie_neg: "to_double (- (2 ^ 53) - 1) = - (2 ^ 53)"
  by code_simp

text \<open>
  Further out the doubles are \<open>2\<close> apart, then \<open>4\<close>: an odd integer past \<open>2 ^ 53\<close> goes
  to the neighbour that is a multiple of \<open>4\<close>, and \<open>2 ^ 54 + 1\<close> falls back to \<open>2 ^ 54\<close>.
\<close>

lemma to_double_examples:
  "to_double (2 ^ 53 + 2) = 2 ^ 53 + 2"
  "to_double (2 ^ 53 + 3) = 2 ^ 53 + 4"
  "to_double (2 ^ 53 + 5) = 2 ^ 53 + 4"
  "to_double (2 ^ 54 + 1) = 2 ^ 54"
  "to_double (2 ^ 54 + 2) = 2 ^ 54"
  "to_double (2 ^ 54 + 6) = 2 ^ 54 + 8"
  by code_simp+

section \<open>The parity query\<close>

lemma js_rem_2_even: "(js_rem n 2 = 0) = even n"
proof -
  have "(sgn n * (\<bar>n\<bar> mod 2) = 0) = even n"
    by (cases "n = 0") (auto simp: sgn_if even_iff_mod_2_eq_zero)
  then show ?thesis
    by (simp add: js_rem_def smod_int_alt_def)
qed

lemma isEven_result: "fst (isEven st) = (js_rem (count (state st)) 2 = 0)"
  by (simp add: isEven_def getState_def)

lemma isEven_store: "snd (isEven st) = st"
  by (simp add: isEven_def getState_def)

text \<open>
  C2. For every store, \<open>isEven()\<close> returns whether \<open>count % 2\<close> is \<open>0\<close>, which is the case
  exactly when \<open>count\<close> is even (negative counts included); the store it leaves behind is the
  store it was called on, field by field; and it has no failing branch: it is a total
  function with a boolean result.
\<close>

theorem isEven_pure_query:
  "fst (isEven st) = (js_rem (count (state st)) 2 = 0)
   \<and> fst (isEven st) = even (count (state st))
   \<and> snd (isEven st) = st"
  by (simp add: isEven_result isEven_store js_rem_2_even)

text \<open>
  C9. Two calls of \<open>isEven()\<close> in a row, nothing in between, return the same boolean: the
  second call runs on the store the first one leaves behind.
\<close>

theorem isEven_twice_same:
  "fst (isEven (snd (isEven st))) = fst (isEven st)"
  by (simp add: isEven_store)

section \<open>The actions\<close>

lemma state_increment:
  "state (snd (increment st)) = (state st)\<lparr>count := js_add (count (state st)) 1\<rparr>"
  by (simp add: increment_def increment_updater_def persist_set_def setItem_def setState_def getState_def
      assign_def Let_def)

lemma state_decrement:
  "state (snd (decrement st)) = (state st)\<lparr>count := js_sub (count (state st)) 1\<rparr>"
  by (simp add: decrement_def decrement_updater_def persist_set_def setItem_def setState_def getState_def
      assign_def Let_def)

lemma count_increment: "count (state (snd (increment st))) = to_double (count (state st) + 1)"
  by (simp add: state_increment js_add_def)

lemma count_decrement: "count (state (snd (decrement st))) = to_double (count (state st) - 1)"
  by (simp add: state_decrement js_sub_def)

lemma count_fresh: "count (state (useCountStore Map.empty)) = 0"
  by (simp add: useCountStore_def initial_state_def)

text \<open>
  C3, as amended. For every store whose count \<open>n\<close> is at least \<open>- (2 ^ 53)\<close> and below
  \<open>2 ^ 53\<close>, the store that \<open>increment()\<close> leaves behind has count \<open>n + 1\<close>. The action
  takes nothing but the store and has no failing branch.
\<close>

theorem increment_adds_one:
  assumes "- (2 ^ 53) \<le> count (state st)" and "count (state st) < 2 ^ 53"
  shows "count (state (snd (increment st))) = count (state st) + 1"
proof -
  from assms have "\<bar>count (state st) + 1\<bar> \<le> 2 ^ 53" by simp
  then show ?thesis by (simp add: count_increment to_double_exact)
qed

text \<open>The fresh store over an empty medium has count \<open>0\<close>; one \<open>increment()\<close> makes it \<open>1\<close>.\<close>

theorem increment_adds_one_witness:
  "- (2 ^ 53) \<le> count (state (useCountStore Map.empty))
   \<and> count (state (useCountStore Map.empty)) < 2 ^ 53
   \<and> count (state (snd (increment (useCountStore Map.empty)))) = 1"
  using increment_adds_one [of "useCountStore Map.empty"]
  by (simp add: count_fresh)

text \<open>
  C3 as stated fails at \<open>n = 2 ^ 53\<close> (9007199254740992): \<open>state.count + 1\<close> is
  rounded back to \<open>2 ^ 53\<close>, so the count after \<open>increment()\<close> is \<open>n\<close>, not \<open>n + 1\<close>.
\<close>

theorem increment_at_2_53_counterexample:
  "count (state \<lparr>state = initial_state\<lparr>count := 2 ^ 53\<rparr>, storage = Map.empty, writes = []\<rparr>)
     = 2 ^ 53
   \<and> count (state (snd (increment
        \<lparr>state = initial_state\<lparr>count := 2 ^ 53\<rparr>, storage = Map.empty, writes = []\<rparr>)))
     = 2 ^ 53
   \<and> count (state (snd (increment
        \<lparr>state = initial_state\<lparr>count := 2 ^ 53\<rparr>, storage = Map.empty, writes = []\<rparr>)))
     \<noteq> 2 ^ 53 + 1"
proof -
  have "to_double (2 ^ 53 + 1) = 2 ^ 53" by (rule to_double_tie)
  then show ?thesis
    by (simp add: count_increment)
qed

text \<open>
  C4. From count \<open>0\<close>, two calls of \<open>decrement()\<close> leave count \<open>-2\<close>, and \<open>isEven()\<close> is
  then true. The action has no guard at zero or anywhere else: from any count that is
  \<open>0\<close> or negative (down to where doubles stop being exact) it subtracts one, the result is
  negative, and the parity query is right on it.
\<close>

theorem decrement_below_zero:
  "(count (state st) = 0 \<longrightarrow>
      count (state (snd (decrement (snd (decrement st))))) = - 2
      \<and> fst (isEven (snd (decrement (snd (decrement st))))))
   \<and> (- (2 ^ 53) < count (state st) \<and> count (state st) \<le> 0 \<longrightarrow>
      count (state (snd (decrement st))) = count (state st) - 1
      \<and> count (state (snd (decrement st))) < 0
      \<and> fst (isEven (snd (decrement st))) = even (count (state st) - 1))"
proof (intro conjI impI)
  assume z: "count (state st) = 0"
  then have one: "count (state (snd (decrement st))) = - 1"
    by (simp add: count_decrement to_double_exact)
  then show two: "count (state (snd (decrement (snd (decrement st))))) = - 2"
    by (simp add: count_decrement to_double_exact)
  then show "fst (isEven (snd (decrement (snd (decrement st)))))"
    by (simp add: isEven_result js_rem_2_even)
next
  assume r: "- (2 ^ 53) < count (state st) \<and> count (state st) \<le> 0"
  then have "\<bar>count (state st) - 1\<bar> \<le> 2 ^ 53" by simp
  then show d: "count (state (snd (decrement st))) = count (state st) - 1"
    by (simp add: count_decrement to_double_exact)
  from r d show "count (state (snd (decrement st))) < 0" by simp
  from d show "fst (isEven (snd (decrement st))) = even (count (state st) - 1)"
    by (simp add: isEven_result js_rem_2_even)
qed

text \<open>
  On the fresh store: \<open>0\<close>, then \<open>-1\<close> (odd), then \<open>-2\<close> (even).
\<close>

theorem decrement_below_zero_witness:
  "count (state (useCountStore Map.empty)) = 0
   \<and> - (2 ^ 53) < count (state (useCountStore Map.empty))
   \<and> count (state (useCountStore Map.empty)) \<le> 0
   \<and> count (state (snd (decrement (snd (decrement (useCountStore Map.empty)))))) = - 2
   \<and> fst (isEven (snd (decrement (snd (decrement (useCountStore Map.empty))))))
   \<and> count (state (snd (decrement (useCountStore Map.empty)))) = - 1
   \<and> fst (isEven (snd (decrement (useCountStore Map.empty)))) = False"
  using decrement_below_zero [of "useCountStore Map.empty"]
  by (simp add: count_fresh)

text \<open>
  C10. The object that either updater returns has the one field \<open>count\<close>, so the state
  after \<open>increment()\<close> or \<open>decrement()\<close> is the state before it with \<open>count\<close> replaced:
  its \<open>isEven\<close> and \<open>actions\<close> fields hold the same references as before, and the
  selector of \<open>useCountActions\<close> returns the same object before and after a mutation.
\<close>

theorem actions_replace_only_count:
  "keys (increment_updater (state st)) = [''count'']
   \<and> keys (decrement_updater (state st)) = [''count'']
   \<and> state (snd (increment st)) = (state st)\<lparr>count := js_add (count (state st)) 1\<rparr>
   \<and> state (snd (decrement st)) = (state st)\<lparr>count := js_sub (count (state st)) 1\<rparr>
   \<and> isEven_ref (state (snd (increment st))) = isEven_ref (state st)
   \<and> isEven_ref (state (snd (decrement st))) = isEven_ref (state st)
   \<and> actions_ref (state (snd (increment st))) = actions_ref (state st)
   \<and> actions_ref (state (snd (decrement st))) = actions_ref (state st)
   \<and> useCountActions (snd (increment st)) = useCountActions st
   \<and> useCountActions (snd (decrement st)) = useCountActions st"
  by (simp add: state_increment state_decrement useCountActions_def getState_def
      increment_updater_def decrement_updater_def keys_def)

section \<open>Sequences of calls\<close>

text \<open>
  A call is exact as long as the count it should produce is at most \<open>2 ^ 53\<close> in
  magnitude; at the two ends of that range the count stays where it is, so a count that
  starts in the range never leaves it.
\<close>

lemma count_call_exact:
  "\<bar>count (state st) + delta a\<bar> \<le> 2 ^ 53 \<Longrightarrow> count (state (call a st)) = count (state st) + delta a"
  by (cases a) (simp_all add: count_increment count_decrement to_double_exact)

lemma count_call_bounded:
  "\<bar>count (state st)\<bar> \<le> 2 ^ 53 \<Longrightarrow> \<bar>count (state (call a st))\<bar> \<le> 2 ^ 53"
proof (cases "\<bar>count (state st) + delta a\<bar> \<le> 2 ^ 53")
  case True
  then show ?thesis by (simp add: count_call_exact)
next
  case False
  assume b: "\<bar>count (state st)\<bar> \<le> 2 ^ 53"
  show ?thesis
  proof (cases a)
    case Increment
    with False b have "count (state st) = 2 ^ 53" by simp
    with Increment show ?thesis
      using to_double_tie by (simp add: count_increment)
  next
    case Decrement
    with False b have "count (state st) = - (2 ^ 53)" by simp
    with Decrement show ?thesis
      using to_double_tie_neg by (simp add: count_decrement)
  qed
qed

lemma count_run_exact:
  "list_all (\<lambda>n. \<bar>n\<bar> \<le> 2 ^ 53) (running_sums (count (state st)) as) \<Longrightarrow>
   count (state (run as st)) = count (state st) + net as"
proof (induction as arbitrary: st)
  case Nil
  then show ?case by (simp add: net_def)
next
  case (Cons a as)
  from Cons.prems have b: "\<bar>count (state st) + delta a\<bar> \<le> 2 ^ 53" by simp
  then have c: "count (state (call a st)) = count (state st) + delta a"
    by (rule count_call_exact)
  from Cons.prems c have "list_all (\<lambda>n. \<bar>n\<bar> \<le> 2 ^ 53) (running_sums (count (state (call a st))) as)"
    by simp
  then have "count (state (run as (call a st))) = count (state (call a st)) + net as"
    by (rule Cons.IH)
  with c show ?case by (simp add: net_def)
qed

lemma abs_delta: "\<bar>c + delta a\<bar> \<le> \<bar>c\<bar> + 1"
  by (cases a) simp_all

lemma running_sums_short:
  "\<bar>c\<bar> + int (length as) \<le> 2 ^ 53 \<Longrightarrow> list_all (\<lambda>n. \<bar>n\<bar> \<le> 2 ^ 53) (running_sums c as)"
proof (induction as arbitrary: c)
  case Nil
  then show ?case by simp
next
  case (Cons a as)
  have d: "\<bar>c + delta a\<bar> \<le> \<bar>c\<bar> + 1" by (rule abs_delta)
  with Cons.prems have "\<bar>c + delta a\<bar> + int (length as) \<le> 2 ^ 53" by simp
  then have "list_all (\<lambda>n. \<bar>n\<bar> \<le> 2 ^ 53) (running_sums (c + delta a) as)"
    by (rule Cons.IH)
  moreover from d Cons.prems have "\<bar>c + delta a\<bar> \<le> 2 ^ 53" by simp
  ultimately show ?case by simp
qed

text \<open>
  C1, as amended. Take a store whose count is \<open>0\<close> and any finite sequence of
  \<open>increment\<close> and \<open>decrement\<close> calls. If the running net sum of the steps never leaves
  the range from \<open>- (2 ^ 53)\<close> to \<open>2 ^ 53\<close> (as it cannot in a sequence of at most
  \<open>2 ^ 53\<close> calls), the count after the sequence is the net sum of the \<open>+1\<close> and \<open>-1\<close>
  steps. Whatever the sequence, \<open>isEven()\<close> then returns true exactly when the count is
  even.
\<close>

theorem count_is_net_sum:
  assumes "count (state st) = 0"
  shows "(list_all (\<lambda>n. \<bar>n\<bar> \<le> 2 ^ 53) (running_sums 0 as) \<longrightarrow> count (state (run as st)) = net as)
         \<and> (int (length as) \<le> 2 ^ 53 \<longrightarrow> count (state (run as st)) = net as)
         \<and> fst (isEven (run as st)) = even (count (state (run as st)))"
proof (intro conjI impI)
  assume "list_all (\<lambda>n. \<bar>n\<bar> \<le> 2 ^ 53) (running_sums 0 as)"
  with assms show "count (state (run as st)) = net as"
    using count_run_exact [of st as] by simp
next
  assume "int (length as) \<le> 2 ^ 53"
  then have "list_all (\<lambda>n. \<bar>n\<bar> \<le> 2 ^ 53) (running_sums 0 as)"
    using running_sums_short [of 0 as] by simp
  with assms show "count (state (run as st)) = net as"
    using count_run_exact [of st as] by simp
next
  show "fst (isEven (run as st)) = even (count (state (run as st)))"
    by (simp add: isEven_result js_rem_2_even)
qed

text \<open>
  The sequence \<open>increment\<close>, \<open>increment\<close>, \<open>decrement\<close> on the fresh store: count \<open>1\<close>,
  and \<open>isEven()\<close> is false.
\<close>

theorem count_is_net_sum_witness:
  "count (state (useCountStore Map.empty)) = 0
   \<and> list_all (\<lambda>n. \<bar>n\<bar> \<le> 2 ^ 53) (running_sums 0 [Increment, Increment, Decrement])
   \<and> int (length [Increment, Increment, Decrement]) \<le> 2 ^ 53
   \<and> count (state (run [Increment, Increment, Decrement] (useCountStore Map.empty))) = 1
   \<and> fst (isEven (run [Increment, Increment, Decrement] (useCountStore Map.empty))) = False"
proof -
  let ?as = "[Increment, Increment, Decrement]"
  let ?st = "useCountStore Map.empty"
  have z: "count (state ?st) = 0" by (rule count_fresh)
  have r: "list_all (\<lambda>n. \<bar>n\<bar> \<le> 2 ^ 53) (running_sums 0 ?as)" by simp
  have l: "int (length ?as) \<le> 2 ^ 53" by simp
  have n: "net ?as = 1" by (simp add: net_def)
  note t = count_is_net_sum [of ?st ?as, OF z]
  from t r have "count (state (run ?as ?st)) = net ?as" by blast
  with n have c: "count (state (run ?as ?st)) = 1" by simp
  from t have "fst (isEven (run ?as ?st)) = even (count (state (run ?as ?st)))" by blast
  with c have e: "fst (isEven (run ?as ?st)) = False" by simp
  from z r l c e show ?thesis by (intro conjI)
qed

lemma run_append: "run (as @ bs) st = run bs (run as st)"
  by (induction as arbitrary: st) simp_all

lemma net_append: "net (as @ bs) = net as + net bs"
  by (simp add: net_def)

lemma net_replicate: "net (replicate k a) = int k * delta a"
  by (induction k) (simp_all add: net_def algebra_simps)

lemma count_run_increments:
  "int k \<le> 2 ^ 53 \<Longrightarrow>
   count (state (run (replicate k Increment) (useCountStore Map.empty))) = int k"
proof -
  assume k: "int k \<le> 2 ^ 53"
  have "\<bar>0\<bar> + int (length (replicate k Increment)) \<le> 2 ^ 53"
    using k by simp
  then have "list_all (\<lambda>n. \<bar>n\<bar> \<le> 2 ^ 53) (running_sums 0 (replicate k Increment))"
    by (rule running_sums_short)
  then have "count (state (run (replicate k Increment) (useCountStore Map.empty)))
      = count (state (useCountStore Map.empty)) + net (replicate k Increment)"
    using count_run_exact [of "useCountStore Map.empty" "replicate k Increment"]
    by (simp add: count_fresh)
  then show ?thesis
    by (simp add: count_fresh net_replicate)
qed

text \<open>
  C1 as stated fails for a sequence that takes the net sum past \<open>2 ^ 53\<close>: after
  \<open>2 ^ 53\<close> calls of \<open>increment\<close> on the fresh store the count is \<open>2 ^ 53\<close>, and one more
  call leaves it there, while the net sum of the steps is \<open>2 ^ 53 + 1\<close>.
\<close>

theorem count_past_2_53_counterexample:
  "count (state (run (replicate (2 ^ 53) Increment @ [Increment]) (useCountStore Map.empty))) = 2 ^ 53
   \<and> net (replicate (2 ^ 53) Increment @ [Increment]) = 2 ^ 53 + 1"
proof -
  let ?st = "useCountStore Map.empty"
  have "count (state (run (replicate (2 ^ 53) Increment) ?st)) = int (2 ^ 53)"
    by (rule count_run_increments) simp
  then have a: "count (state (run (replicate (2 ^ 53) Increment) ?st)) = 2 ^ 53"
    by simp
  have "count (state (run (replicate (2 ^ 53) Increment @ [Increment]) ?st))
      = to_double (count (state (run (replicate (2 ^ 53) Increment) ?st)) + 1)"
    by (simp only: run_append run.simps call.simps count_increment)
  also have "\<dots> = 2 ^ 53"
    by (simp only: a to_double_tie)
  finally have c: "count (state (run (replicate (2 ^ 53) Increment @ [Increment]) ?st)) = 2 ^ 53" .
  have "net (replicate (2 ^ 53) Increment @ [Increment]) = int (2 ^ 53) * delta Increment + net [Increment]"
    by (simp only: net_append net_replicate)
  then have n: "net (replicate (2 ^ 53) Increment @ [Increment]) = 2 ^ 53 + 1"
    by (simp add: net_def)
  from c n show ?thesis by (rule conjI)
qed

section \<open>Persistence\<close>

lemma storage_setItem:
  "storage (snd (setItem st)) = (storage st)(name \<mapsto> Snapshot (partialize (state st)))"
  by (simp add: setItem_def getState_def Let_def)

lemma storage_increment:
  "storage (snd (increment st)) =
     (storage st)(name \<mapsto> Snapshot (partialize (state (snd (increment st)))))"
  by (simp add: increment_def persist_set_def setItem_def setState_def getState_def Let_def)

lemma storage_decrement:
  "storage (snd (decrement st)) =
     (storage st)(name \<mapsto> Snapshot (partialize (state (snd (decrement st)))))"
  by (simp add: decrement_def persist_set_def setItem_def setState_def getState_def Let_def)

lemma writes_increment:
  "writes (snd (increment st)) = writes st @ [(name, partialize (state (snd (increment st))))]"
  by (simp add: increment_def persist_set_def setItem_def setState_def getState_def Let_def)

lemma writes_decrement:
  "writes (snd (decrement st)) = writes st @ [(name, partialize (state (snd (decrement st))))]"
  by (simp add: decrement_def persist_set_def setItem_def setState_def getState_def Let_def)

lemma writes_call: "writes (call a st) = writes st @ [(name, partialize (state (call a st)))]"
  by (cases a) (simp_all add: writes_increment writes_decrement)

lemma length_writes_run: "length (writes (run as st)) = length (writes st) + length as"
  by (induction as arbitrary: st) (simp_all add: writes_call)

lemma partialize_keys: "keys (partialize s) = [''count'']"
  by (simp add: partialize_def keys_def)

lemma written_run:
  "list_all (\<lambda>w. fst w = ''countStore'' \<and> keys (snd w) = [''count'']
       \<and> isEven_given (snd w) = None \<and> actions_given (snd w) = None) (writes st) \<Longrightarrow>
   list_all (\<lambda>w. fst w = ''countStore'' \<and> keys (snd w) = [''count'']
       \<and> isEven_given (snd w) = None \<and> actions_given (snd w) = None) (writes (run as st))"
proof (induction as arbitrary: st)
  case Nil
  then show ?case by simp
next
  case (Cons a as)
  from Cons.prems have "list_all (\<lambda>w. fst w = ''countStore'' \<and> keys (snd w) = [''count'']
       \<and> isEven_given (snd w) = None \<and> actions_given (snd w) = None) (writes (call a st))"
    by (simp add: writes_call partialize_keys name_def) (simp add: partialize_def)
  then show ?case by (simp add: Cons.IH)
qed

text \<open>
  C7. Every snapshot the store writes to the durable medium has the field \<open>count\<close> and no
  other: in the log of writes of a store built over any medium, after any sequence of
  calls, each entry is under the key \<open>"countStore"\<close>, its only key is \<open>count\<close>, and it
  holds neither the \<open>isEven\<close> function nor the \<open>actions\<close> object. What the medium holds
  under the key after \<open>increment()\<close> or \<open>decrement()\<close> is the projection of the new state,
  and that projection (line 27) is the object with the one field \<open>count\<close>, the state's count.
\<close>

theorem written_snapshots_only_count:
  "list_all (\<lambda>w. fst w = ''countStore'' \<and> keys (snd w) = [''count'']
       \<and> isEven_given (snd w) = None \<and> actions_given (snd w) = None)
     (writes (run as (useCountStore medium)))
   \<and> storage (snd (increment st)) ''countStore''
       = Some (Snapshot (partialize (state (snd (increment st)))))
   \<and> storage (snd (decrement st)) ''countStore''
       = Some (Snapshot (partialize (state (snd (decrement st)))))
   \<and> keys (partialize s) = [''count'']
   \<and> count_given (partialize s) = Some (count s)
   \<and> isEven_given (partialize s) = None
   \<and> actions_given (partialize s) = None"
proof -
  have "writes (useCountStore medium) = []"
    by (simp add: useCountStore_def)
  then have "list_all (\<lambda>w. fst w = ''countStore'' \<and> keys (snd w) = [''count'']
       \<and> isEven_given (snd w) = None \<and> actions_given (snd w) = None)
     (writes (run as (useCountStore medium)))"
    by (intro written_run) simp
  then show ?thesis
    by (simp add: storage_increment storage_decrement partialize_keys name_def)
      (simp add: partialize_def)
qed

text \<open>
  C8. A call of \<open>increment()\<close> or \<open>decrement()\<close> adds exactly one entry to the log of
  writes: the projection of the state the call has just produced, under the key
  \<open>"countStore"\<close>; the medium then holds that snapshot under the key in place of the one
  before. A sequence of calls has made as many writes as it has calls.
\<close>

theorem one_write_per_mutation:
  "writes (snd (increment st)) =
     writes st @ [(''countStore'', partialize (state (snd (increment st))))]
   \<and> storage (snd (increment st)) =
     (storage st)(''countStore'' \<mapsto> Snapshot (partialize (state (snd (increment st)))))
   \<and> writes (snd (decrement st)) =
     writes st @ [(''countStore'', partialize (state (snd (decrement st))))]
   \<and> storage (snd (decrement st)) =
     (storage st)(''countStore'' \<mapsto> Snapshot (partialize (state (snd (decrement st)))))
   \<and> length (writes (run as st)) = length (writes st) + length as"
  using writes_increment [of st] writes_decrement [of st] storage_increment [of st]
    storage_decrement [of st] length_writes_run [of as st]
  by (simp add: name_def)

lemma count_restored:
  "count (state (useCountStore (medium(name \<mapsto> Snapshot (partialize s))))) = count s"
  by (simp add: useCountStore_def partialize_def assign_def)

text \<open>
  C5. Whatever count a store holds (\<open>5\<close>, or any other), once the store has written its
  snapshot, a fresh store built over the same medium starts with that count. The same holds
  for the medium as a mutation leaves it, since each mutation writes.
\<close>

theorem persistence_round_trip:
  "count (state (useCountStore (storage (snd (setItem st))))) = count (state st)
   \<and> count (state (useCountStore (storage (snd (increment st)))))
       = count (state (snd (increment st)))
   \<and> count (state (useCountStore (storage (snd (decrement st)))))
       = count (state (snd (decrement st)))"
  by (simp add: count_restored storage_setItem storage_increment storage_decrement)

text \<open>
  C6. If the medium holds nothing under the store's key, or holds text that does not parse
  (the empty text included), the fresh store starts with count \<open>0\<close>: its state is the one
  the creator returns, the same as over the medium with the record removed. Construction
  has no failing branch.
\<close>

theorem default_fallback:
  assumes "medium name = None \<or> (\<exists>text. medium name = Some (Malformed text))"
  shows "count (state (useCountStore medium)) = 0
         \<and> state (useCountStore medium) = state (useCountStore (medium(name := None)))
         \<and> state (useCountStore medium) = initial_state"
  using assms by (auto simp: useCountStore_def initial_state_def)

text \<open>A medium whose record under \<open>"countStore"\<close> is cut off in the middle.\<close>

theorem default_fallback_witness:
  "[name \<mapsto> Malformed ''{count:''] name = Some (Malformed ''{count:'')
   \<and> count (state (useCountStore [name \<mapsto> Malformed ''{count:''])) = 0
   \<and> state (useCountStore [name \<mapsto> Malformed ''{count:'']) = state (useCountStore Map.empty)"
proof -
  let ?m = "[name \<mapsto> Malformed ''{count:'']"
  have m: "?m name = Some (Malformed ''{count:'')"
    by simp
  then have h: "?m name = None \<or> (\<exists>text. ?m name = Some (Malformed text))"
    by blast
  note fallback = default_fallback [of ?m, OF h]
  have e: "?m(name := None) = Map.empty"
    by simp
  from fallback have c: "count (state (useCountStore ?m)) = 0"
    by (rule conjunct1)
  from fallback have "state (useCountStore ?m) = state (useCountStore (?m(name := None)))"
    by (rule conjunct2 [THEN conjunct1])
  then have s: "state (useCountStore ?m) = state (useCountStore Map.empty)"
    by (simp only: e)
  from m c s show ?thesis
    by (intro conjI)
qed

end
